theory Spec2Isabelle
  imports Main "HOL-Library.Sublist" "HOL-Library.Word"
begin

section \<open>C strings and the kernel log\<close>

text \<open>
  A \<open>char *\<close> is modelled by the bytes it points to. The string it denotes ends before
  the first NUL byte; a HOL string without a NUL byte stands for a string literal, whose
  terminator is implicit.
\<close>

definition NUL :: char where
  "NUL = CHR 0x00"

definition LF :: string where
  "LF = [CHR 0x0A]"

definition c_str :: "string \<Rightarrow> string" where
  "c_str buf = takeWhile (\<lambda>c. c \<noteq> NUL) buf"

definition strlen :: "string \<Rightarrow> nat" where
  "strlen s = length (c_str s)"

text \<open>Offset of the first occurrence of \<open>needle\<close> in \<open>hay\<close>, scanning from the left.\<close>

fun find_first :: "string \<Rightarrow> string \<Rightarrow> nat option" where
  "find_first [] needle = (if needle = [] then Some 0 else None)"
| "find_first (h # hs) needle =
     (if prefix needle (h # hs) then Some 0 else map_option Suc (find_first hs needle))"

text \<open>\<open>strstr\<close>: \<open>None\<close> is the NULL result, \<open>Some k\<close> a pointer \<open>k\<close> bytes into the haystack.\<close>

definition strstr :: "string \<Rightarrow> string \<Rightarrow> nat option" where
  "strstr hay needle = find_first (c_str hay) (c_str needle)"

fun str_cmp :: "string \<Rightarrow> string \<Rightarrow> int" where
  "str_cmp [] [] = 0"
| "str_cmp [] (b # bs) = - 1"
| "str_cmp (a # as) [] = 1"
| "str_cmp (a # as) (b # bs) =
     (if a = b then str_cmp as bs
      else if (of_char a :: nat) < of_char b then - 1 else 1)"

definition strcmp :: "string \<Rightarrow> string \<Rightarrow> int" where
  "strcmp cs ct = str_cmp (c_str cs) (c_str ct)"

text \<open>\<open>printk\<close> appends one record to the kernel log: its level and its formatted text.\<close>

datatype loglevel = KERN_INFO | KERN_WARNING | KERN_ERR

type_synonym kmsg = "loglevel \<times> string"

text \<open>Decimal rendering of a count, as \<open>%zd\<close> prints a non-negative value.\<close>

fun decimal :: "nat \<Rightarrow> string" where
  "decimal n =
     (if n < 10 then [char_of (n + 48)]
      else decimal (n div 10) @ [char_of (n mod 10 + 48)])"

declare decimal.simps [simp del]

section \<open>aegis_lkm_stub.c\<close>

definition AEGIS_TOKEN_PATH :: string where
  "AEGIS_TOKEN_PATH = ''/etc/aegis/auth.token''"

definition AEGIS_TOKEN_MAX_SIZE :: nat where
  "AEGIS_TOKEN_MAX_SIZE = 2048"

definition ENOENT :: int where "ENOENT = 2"
definition EIO :: int where "EIO = 5"
definition ENOMEM :: int where "ENOMEM = 12"
definition EINVAL :: int where "EINVAL = 22"

text \<open>The two static variables of the module, with their initialisers.\<close>

record lkm_state =
  aegis_license_active :: bool
  aegis_license_tier :: string

definition lkm_initial :: lkm_state where
  "lkm_initial = \<lparr>aegis_license_active = False, aegis_license_tier = ''none''\<rparr>"

text \<open>
  What the kernel answers while the token file is read: \<open>kmalloc\<close> returns NULL,
  \<open>filp_open\<close> returns an error pointer, \<open>kernel_read\<close> returns a negative count, or
  \<open>kernel_read\<close> delivers bytes of the file (never more than the count it was given).
\<close>

datatype vfs = Kmalloc_null | Filp_open_err | Kernel_read_err | Kernel_read_ok string

text \<open>
  Result: the log records, the return value, and \<open>*token_buffer\<close> (written only on
  success): the bytes read followed by the terminating NUL.
\<close>

fun aegis_read_token_file :: "vfs \<Rightarrow> kmsg list \<times> int \<times> string option" where
  "aegis_read_token_file Kmalloc_null =
     ([(KERN_INFO, ''Aegis: Attempting to read token from '' @ AEGIS_TOKEN_PATH @ LF),
       (KERN_ERR, ''Aegis: Failed to allocate memory for token buffer'' @ LF)],
      - ENOMEM, None)"
| "aegis_read_token_file Filp_open_err =
     ([(KERN_INFO, ''Aegis: Attempting to read token from '' @ AEGIS_TOKEN_PATH @ LF),
       (KERN_WARNING, ''Aegis: Token file not found - running in unlicensed mode'' @ LF)],
      - ENOENT, None)"
| "aegis_read_token_file Kernel_read_err =
     ([(KERN_INFO, ''Aegis: Attempting to read token from '' @ AEGIS_TOKEN_PATH @ LF),
       (KERN_ERR, ''Aegis: Failed to read token file'' @ LF)],
      - EIO, None)"
| "aegis_read_token_file (Kernel_read_ok content) =
     (let bytes = take (AEGIS_TOKEN_MAX_SIZE - 1) content in
      ([(KERN_INFO, ''Aegis: Attempting to read token from '' @ AEGIS_TOKEN_PATH @ LF),
        (KERN_INFO, ''Aegis: Token file read successfully ('' @ decimal (length bytes)
                      @ '' bytes)'' @ LF)],
       0, Some (bytes @ [NUL])))"

text \<open>Result: the log records, the return value, and \<open>*tier\<close> (written only on success).\<close>

definition aegis_validate_token_stub :: "string option \<Rightarrow> kmsg list \<times> int \<times> string option" where
  "aegis_validate_token_stub token =
     (case token of
        None \<Rightarrow>
          ([(KERN_INFO, ''Aegis: Validating token (stub implementation)'' @ LF),
            (KERN_ERR, ''Aegis: Invalid token format'' @ LF)], - EINVAL, None)
      | Some tok \<Rightarrow>
          if strlen tok < 10 then
            ([(KERN_INFO, ''Aegis: Validating token (stub implementation)'' @ LF),
              (KERN_ERR, ''Aegis: Invalid token format'' @ LF)], - EINVAL, None)
          else
            (let tier =
               (if strstr tok ''gamer'' \<noteq> None then ''gamer''
                else if strstr tok ''ai'' \<noteq> None then ''ai''
                else if strstr tok ''server'' \<noteq> None then ''server''
                else if strstr tok ''basic'' \<noteq> None then ''basic''
                else if strstr tok ''freemium'' \<noteq> None then ''freemium''
                else ''unknown'')
             in ([(KERN_INFO, ''Aegis: Validating token (stub implementation)'' @ LF),
                  (KERN_INFO, ''Aegis: Token validation successful - Tier: '' @ tier @ LF)],
                 0, Some tier)))"

text \<open>Result: the log records and the static variables after the call.\<close>

definition aegis_activate_features :: "string \<Rightarrow> lkm_state \<Rightarrow> kmsg list \<times> lkm_state" where
  "aegis_activate_features tier s =
     ([(KERN_INFO, ''Aegis: Activating features for tier: '' @ c_str tier @ LF)]
      @ (if strcmp tier ''freemium'' = 0 then
           [(KERN_INFO, ''Aegis: Freemium mode - Basic features only'' @ LF)]
         else if strcmp tier ''basic'' = 0 then
           [(KERN_INFO, ''Aegis: Basic tier - Security updates enabled'' @ LF)]
         else if strcmp tier ''gamer'' = 0 then
           [(KERN_INFO, ''Aegis: Gamer tier - Gaming optimizations enabled'' @ LF),
            (KERN_INFO, ''Aegis:   - AI-powered frame optimization'' @ LF),
            (KERN_INFO, ''Aegis:   - P2P network tuning'' @ LF),
            (KERN_INFO, ''Aegis:   - Low-latency mode'' @ LF)]
         else if strcmp tier ''ai'' = 0 then
           [(KERN_INFO, ''Aegis: AI tier - AI development features enabled'' @ LF),
            (KERN_INFO, ''Aegis:   - Docker integration'' @ LF),
            (KERN_INFO, ''Aegis:   - GPU acceleration'' @ LF),
            (KERN_INFO, ''Aegis:   - Container optimization'' @ LF)]
         else if strcmp tier ''server'' = 0 then
           [(KERN_INFO, ''Aegis: Server tier - Server optimizations enabled'' @ LF),
            (KERN_INFO, ''Aegis:   - AI server acceleration'' @ LF),
            (KERN_INFO, ''Aegis:   - Multi-tenant isolation'' @ LF),
            (KERN_INFO, ''Aegis:   - High-performance networking'' @ LF)]
         else []),
      s\<lparr>aegis_license_active := True, aegis_license_tier := tier\<rparr>)"

definition init_banner :: "kmsg list" where
  "init_banner =
     [(KERN_INFO, ''Aegis OS Kernel Module v1.0.0 initializing...'' @ LF),
      (KERN_INFO, ''Aegis: Copyright (c) 2024 Aegis OS Development Team'' @ LF)]"

text \<open>
  Result: the log records, the return value and the static variables after the call.
  \<open>aegis_validate_token_stub\<close> leaves \<open>*tier\<close> NULL only when it fails, so the call of
  \<open>aegis_activate_features\<close> always has a tier to pass.
\<close>

definition aegis_lkm_init :: "vfs \<Rightarrow> lkm_state \<Rightarrow> kmsg list \<times> int \<times> lkm_state" where
  "aegis_lkm_init env s =
     (case aegis_read_token_file env of (log_r, ret, token) \<Rightarrow>
        if ret \<noteq> 0 then
          (init_banner @ log_r
             @ [(KERN_WARNING,
                 ''Aegis: No valid license found - running in restricted mode'' @ LF)],
           0, s\<lparr>aegis_license_active := False\<rparr>)
        else
          (case aegis_validate_token_stub token of (log_v, ret_v, tier) \<Rightarrow>
             (case (if ret_v = 0 then
                      (case tier of
                         Some t \<Rightarrow> aegis_activate_features t s
                       | None \<Rightarrow> ([], s))
                    else
                      ([(KERN_ERR, ''Aegis: Token validation failed'' @ LF)],
                       s\<lparr>aegis_license_active := False\<rparr>))
              of (log_a, s') \<Rightarrow>
                (init_banner @ log_r @ log_v @ log_a
                   @ [(KERN_INFO, ''Aegis: Module initialization complete (License: ''
                         @ (if aegis_license_active s' then ''ACTIVE'' else ''INACTIVE'')
                         @ '')'' @ LF)],
                 0, s'))))"

definition aegis_lkm_exit :: "lkm_state \<Rightarrow> kmsg list \<times> lkm_state" where
  "aegis_lkm_exit s =
     ([(KERN_INFO, ''Aegis: Kernel module unloading...'' @ LF)]
      @ (if aegis_license_active s then
           [(KERN_INFO, ''Aegis: Deactivating tier '' @ [CHR 0x27] @ c_str (aegis_license_tier s)
               @ [CHR 0x27] @ '' features'' @ LF)]
         else [])
      @ [(KERN_INFO, ''Aegis: Module unloaded successfully'' @ LF)],
      s\<lparr>aegis_license_active := False\<rparr>)"

definition aegis_is_licensed :: "lkm_state \<Rightarrow> bool" where
  "aegis_is_licensed s = aegis_license_active s"

definition aegis_get_tier :: "lkm_state \<Rightarrow> string" where
  "aegis_get_tier s = aegis_license_tier s"

text \<open>
  States of the static variables reachable through the module's transitions: module
  initialisation under any answer of the kernel, activation of a tier that the validator
  returned for some token, and module exit.
\<close>

inductive reachable :: "lkm_state \<Rightarrow> bool" where
  reach_initial: "reachable lkm_initial"
| reach_init: "reachable s \<Longrightarrow> reachable (snd (snd (aegis_lkm_init env s)))"
| reach_activate:
    "reachable s \<Longrightarrow> aegis_validate_token_stub token = (kl, 0, Some tier)
       \<Longrightarrow> reachable (snd (aegis_activate_features tier s))"
| reach_exit: "reachable s \<Longrightarrow> reachable (snd (aegis_lkm_exit s))"

section \<open>aegis_lkm.c (freemium edition)\<close>

definition AEGIS_LICENSE_TIER :: "32 word" where
  "AEGIS_LICENSE_TIER = 2"





definition features_show :: "32 word \<Rightarrow> string" where
  "features_show license_tier =
     ''basic_monitoring'' @ LF @ ''gaming_optimization'' @ LF @ ''community_support'' @ LF
       @ ''proton_wine'' @ LF @ ''system_utilities'' @ LF"

definition disabled_features_show :: "32 word \<Rightarrow> string" where
  "disabled_features_show license_tier =
     ''priority_updates'' @ LF @ ''ai_optimization'' @ LF @ ''professional_support'' @ LF
       @ ''advanced_monitoring'' @ LF @ ''kernel_enhancements'' @ LF @ ''enterprise_features'' @ LF"

section \<open>The token format of the specification\<close>

text \<open>
  Stated from the specification, for comparison with the code: a token is well formed
  when the delimiter \<open>.\<close> cuts it into exactly three segments, that is, when it holds
  exactly two delimiters.
\<close>

definition spec_segment_count :: "string \<Rightarrow> nat" where
  "spec_segment_count tok = Suc (length (filter (\<lambda>c. c = CHR ''.'') tok))"

definition spec_three_segments :: "string \<Rightarrow> bool" where
  "spec_three_segments tok = (spec_segment_count tok = 3)"

text \<open>
  Stated from the words of the claim on the validator: the tier is the first keyword, in
  this fixed order, that occurs in the token as a contiguous substring.
\<close>

definition keyword_order :: "string list" where
  "keyword_order = [''gamer'', ''ai'', ''server'', ''basic'', ''freemium'']"

definition spec_first_match :: "string \<Rightarrow> string" where
  "spec_first_match tok =
     (case filter (\<lambda>k. sublist k tok) keyword_order of [] \<Rightarrow> ''unknown'' | k # _ \<Rightarrow> k)"

text \<open>
  The identifiers held by an attribute whose value is a sequence of lines: the text
  between the line feeds.
\<close>

fun split_lines :: "string \<Rightarrow> string \<Rightarrow> string list" where
  "split_lines acc [] = (if acc = [] then [] else [acc])"
| "split_lines acc (c # cs) =
     (if c = CHR 0x0A then acc # split_lines [] cs else split_lines (acc @ [c]) cs)"

definition feature_ids :: "string \<Rightarrow> string list" where
  "feature_ids buf = split_lines [] buf"

section \<open>Facts about the string functions\<close>

lemma c_str_append_NUL: "c_str (bs @ [NUL]) = c_str bs"
  by (induction bs) (simp_all add: c_str_def)

lemma strlen_append_NUL: "strlen (bs @ [NUL]) = strlen bs"
  by (simp add: strlen_def c_str_append_NUL)

lemma c_str_idem: "c_str (c_str s) = c_str s"
  by (simp add: c_str_def)

lemma str_cmp_eq0: "str_cmp a b = 0 \<longleftrightarrow> a = b"
  by (induction a b rule: str_cmp.induct) auto

lemma strcmp_eq0: "strcmp cs ct = 0 \<longleftrightarrow> c_str cs = c_str ct"
  by (simp add: strcmp_def str_cmp_eq0)

lemma find_first_sublist: "find_first hay needle \<noteq> None \<longleftrightarrow> sublist needle hay"
  by (induction hay) (auto simp: sublist_Cons_right)

lemma strstr_sublist: "strstr hay needle \<noteq> None \<longleftrightarrow> sublist (c_str needle) (c_str hay)"
  unfolding strstr_def by (rule find_first_sublist)

lemma strstr_None: "strstr hay needle = None \<longleftrightarrow> \<not> sublist (c_str needle) (c_str hay)"
  using strstr_sublist [of hay needle] by blast

lemma c_str_keywords:
  "c_str ''gamer'' = ''gamer''" "c_str ''ai'' = ''ai''" "c_str ''server'' = ''server''"
  "c_str ''basic'' = ''basic''" "c_str ''freemium'' = ''freemium''" "c_str ''unknown'' = ''unknown''"
  by (simp_all add: c_str_def NUL_def)

section \<open>Facts about the stub module\<close>

lemma validate_ret:
  "fst (snd (aegis_validate_token_stub token)) =
     (if (case token of None \<Rightarrow> True | Some tok \<Rightarrow> strlen tok < 10) then - EINVAL else 0)"
  by (simp add: aegis_validate_token_stub_def Let_def split: option.split)

lemma validate_tier:
  "10 \<le> strlen tok \<Longrightarrow>
     snd (snd (aegis_validate_token_stub (Some tok))) = Some (spec_first_match (c_str tok))"
  by (simp add: aegis_validate_token_stub_def Let_def strstr_None c_str_keywords
      spec_first_match_def keyword_order_def)

lemma validate_tier_rejected:
  "fst (snd (aegis_validate_token_stub token)) \<noteq> 0 \<Longrightarrow>
     snd (snd (aegis_validate_token_stub token)) = None"
  by (cases token) (simp_all add: aegis_validate_token_stub_def Let_def split: if_splits)

lemma activate_state:
  "snd (aegis_activate_features tier s) = s\<lparr>aegis_license_active := True, aegis_license_tier := tier\<rparr>"
  by (simp add: aegis_activate_features_def)

lemma activate_stateD:
  "aegis_activate_features tier s = (kl, s') \<Longrightarrow>
     s' = s\<lparr>aegis_license_active := True, aegis_license_tier := tier\<rparr>"
  using activate_state [of tier s] by simp

lemma exit_state: "snd (aegis_lkm_exit s) = s\<lparr>aegis_license_active := False\<rparr>"
  by (simp add: aegis_lkm_exit_def)

lemma read_ret:
  "fst (snd (aegis_read_token_file env)) = 0 \<longleftrightarrow> (\<exists>content. env = Kernel_read_ok content)"
  by (cases env) (simp_all add: Let_def ENOMEM_def ENOENT_def EIO_def)

lemma init_state_failed:
  "fst (snd (aegis_read_token_file env)) \<noteq> 0 \<Longrightarrow>
     snd (snd (aegis_lkm_init env s)) = s\<lparr>aegis_license_active := False\<rparr>"
  by (auto simp: aegis_lkm_init_def split: prod.splits)

lemma init_state_read:
  "snd (snd (aegis_lkm_init (Kernel_read_ok content) s)) =
     (let bytes = take (AEGIS_TOKEN_MAX_SIZE - 1) content in
      if 10 \<le> strlen bytes
      then s\<lparr>aegis_license_active := True, aegis_license_tier := spec_first_match (c_str bytes)\<rparr>
      else s\<lparr>aegis_license_active := False\<rparr>)"
proof -
  let ?buf = "take (AEGIS_TOKEN_MAX_SIZE - 1) content @ [NUL]"
  obtain kl r t where v: "aegis_validate_token_stub (Some ?buf) = (kl, r, t)"
    by (cases "aegis_validate_token_stub (Some ?buf)") auto
  have r: "r = (if strlen ?buf < 10 then - EINVAL else 0)"
    using validate_ret [of "Some ?buf"] v by simp
  show ?thesis
  proof (cases "10 \<le> strlen (take (AEGIS_TOKEN_MAX_SIZE - 1) content)")
    case True
    then have "t = Some (spec_first_match (c_str ?buf))"
      using validate_tier [of ?buf] v by (simp add: strlen_append_NUL)
    with True r v show ?thesis
      by (auto simp: aegis_lkm_init_def Let_def strlen_append_NUL c_str_append_NUL
          split: prod.splits dest: activate_stateD)
  next
    case False
    with r v show ?thesis
      by (simp add: aegis_lkm_init_def Let_def strlen_append_NUL EINVAL_def split: prod.splits)
  qed
qed

lemma init_ret: "fst (snd (aegis_lkm_init env s)) = 0"
  by (simp add: aegis_lkm_init_def split: prod.splits)

lemma init_active_iff:
  "aegis_license_active (snd (snd (aegis_lkm_init env s))) \<longleftrightarrow>
     (\<exists>content. env = Kernel_read_ok content \<and> 10 \<le> strlen (take (AEGIS_TOKEN_MAX_SIZE - 1) content))"
proof (cases env)
  case (Kernel_read_ok content)
  then show ?thesis by (simp add: init_state_read Let_def)
qed (simp_all add: init_state_failed ENOMEM_def ENOENT_def EIO_def)

lemma activate_unknown_log:
  "fst (aegis_activate_features ''unknown'' s) =
     [(KERN_INFO, ''Aegis: Activating features for tier: unknown'' @ LF)]"
  by (simp add: aegis_activate_features_def strcmp_eq0 c_str_keywords)

lemma spec_first_match_range:
  "spec_first_match t \<in> {''gamer'', ''ai'', ''server'', ''basic'', ''freemium'', ''unknown''}"
  by (simp add: spec_first_match_def keyword_order_def)

lemma validate_accepted_tier:
  assumes "aegis_validate_token_stub token = (kl, 0, Some tier)"
  shows "tier \<in> {''gamer'', ''ai'', ''server'', ''basic'', ''freemium'', ''unknown''}"
proof -
  from assms have r: "fst (snd (aegis_validate_token_stub token)) = 0" by simp
  then obtain tok where tok: "token = Some tok" "10 \<le> strlen tok"
    using validate_ret [of token] by (cases token) (auto simp: EINVAL_def split: if_splits)
  with assms validate_tier [of tok] have "tier = spec_first_match (c_str tok)" by simp
  then show ?thesis using spec_first_match_range by simp
qed

text \<open>
  The invariant of the static variables: while the licence is active, the tier is one of
  the six names the validator can store.
\<close>

lemma reachable_invariant:
  "reachable s \<Longrightarrow> aegis_license_active s \<Longrightarrow>
     aegis_license_tier s \<in> {''gamer'', ''ai'', ''server'', ''basic'', ''freemium'', ''unknown''}"
proof (induction rule: reachable.induct)
  case reach_initial
  then show ?case by (simp add: lkm_initial_def)
next
  case (reach_init s env)
  show ?case
  proof (cases env)
    case (Kernel_read_ok content)
    with reach_init.prems show ?thesis
      using spec_first_match_range [of "c_str (take (AEGIS_TOKEN_MAX_SIZE - 1) content)"]
      by (simp add: init_state_read Let_def split: if_splits)
  qed (use reach_init.prems in \<open>simp_all add: init_state_failed ENOMEM_def ENOENT_def EIO_def\<close>)
next
  case (reach_activate s token kl tier)
  then show ?case using validate_accepted_tier [of token kl tier] by (simp add: activate_state)
next
  case (reach_exit s)
  then show ?case by (simp add: exit_state)
qed

section \<open>Facts about the freemium module\<close>

text \<open>
  The two feature attributes print fixed lists, whatever \<open>license_tier\<close> holds, and no
  identifier is on both.
\<close>

lemma features_show_ids:
  "feature_ids (features_show t) =
     [''basic_monitoring'', ''gaming_optimization'', ''community_support'', ''proton_wine'',
      ''system_utilities'']"
  by (simp add: feature_ids_def features_show_def LF_def)

lemma disabled_features_show_ids:
  "feature_ids (disabled_features_show t) =
     [''priority_updates'', ''ai_optimization'', ''professional_support'',
      ''advanced_monitoring'', ''kernel_enhancements'', ''enterprise_features'']"
  by (simp add: feature_ids_def disabled_features_show_def LF_def)

lemma features_disabled_disjoint:
  "set (feature_ids (features_show t)) \<inter> set (feature_ids (disabled_features_show t)) = {}"
  by (simp add: features_show_ids disabled_features_show_ids)

section \<open>Claims on the token validator\<close>

text \<open>
  C10. Every token buffer whose string is at least 10 bytes long is accepted by
  \<open>aegis_validate_token_stub\<close> (return value 0), and the tier it stores is the first of
  the keywords gamer, ai, server, basic, freemium, in this order, that occurs in the token
  as a substring, or unknown when none occurs. In particular a token that holds no
  \<open>gamer\<close> but holds \<open>ai\<close> anywhere (also inside another word, also next to
  \<open>server\<close>) gets the tier ai.
\<close>

theorem validate_first_match_precedence:
  "10 \<le> strlen tok \<Longrightarrow>
     fst (snd (aegis_validate_token_stub (Some tok))) = 0 \<and>
     snd (snd (aegis_validate_token_stub (Some tok))) = Some (spec_first_match (c_str tok)) \<and>
     (\<not> sublist ''gamer'' (c_str tok) \<and> sublist ''ai'' (c_str tok) \<longrightarrow>
        snd (snd (aegis_validate_token_stub (Some tok))) = Some ''ai'')"
  using validate_ret [of "Some tok"] validate_tier [of tok]
  by (simp add: spec_first_match_def keyword_order_def)

theorem validate_first_match_precedence_witness:
  "10 \<le> strlen ''maintain-server-01'' \<and>
   sublist ''ai'' ''maintain-server-01'' \<and> sublist ''server'' ''maintain-server-01'' \<and>
   fst (snd (aegis_validate_token_stub (Some ''maintain-server-01''))) = 0 \<and>
   snd (snd (aegis_validate_token_stub (Some ''maintain-server-01''))) = Some ''ai''"
proof -
  have len: "10 \<le> strlen ''maintain-server-01''"
    by (simp add: strlen_def c_str_def NUL_def)
  have c: "c_str ''maintain-server-01'' = ''maintain-server-01''"
    by (simp add: c_str_def NUL_def)
  have m: "spec_first_match ''maintain-server-01'' = ''ai''"
    by code_simp
  have s1: "sublist ''ai'' ''maintain-server-01''" by code_simp
  have s2: "sublist ''server'' ''maintain-server-01''" by code_simp
  from validate_first_match_precedence [OF len] len c m s1 s2 show ?thesis by simp
qed

text \<open>
  C5, as the specification states it: a token that does not consist of exactly three
  segments is rejected. The stub accepts the ten bytes \<open>aaaaaaaaaa\<close>, which hold no
  delimiter at all.
\<close>

theorem validate_accepts_unsegmented_token:
  "\<not> spec_three_segments ''aaaaaaaaaa'' \<and>
   fst (snd (aegis_validate_token_stub (Some ''aaaaaaaaaa''))) = 0"
  by (simp add: spec_three_segments_def spec_segment_count_def aegis_validate_token_stub_def
      strlen_def c_str_def NUL_def Let_def)

text \<open>
  C5, amended: \<open>aegis_validate_token_stub\<close> does not split the token. It returns
  \<open>-EINVAL\<close> exactly when the token is NULL or shorter than 10 bytes, and 0 for every
  other token, whatever the number of its segments.
\<close>

theorem validate_rejects_by_length_only:
  "fst (snd (aegis_validate_token_stub token)) =
     (if token = None \<or> (\<exists>tok. token = Some tok \<and> strlen tok < 10) then - EINVAL else 0)"
  using validate_ret [of token] by (cases token) simp_all

theorem validate_rejects_by_length_only_witness:
  "spec_three_segments ''a.b.c'' \<and>
   fst (snd (aegis_validate_token_stub (Some ''a.b.c''))) = - 22 \<and>
   fst (snd (aegis_validate_token_stub (Some ''no-delimiter-here''))) = 0 \<and>
   fst (snd (aegis_validate_token_stub None)) = - 22"
  using validate_rejects_by_length_only [of "Some ''a.b.c''"]
    validate_rejects_by_length_only [of "Some ''no-delimiter-here''"]
    validate_rejects_by_length_only [of None]
  by (simp add: strlen_def c_str_def NUL_def EINVAL_def spec_three_segments_def
      spec_segment_count_def)

text \<open>
  C1, as the specification states it: a malformed or unsigned token is rejected and leaves
  the licence inactive. The eleven bytes \<open>gamer-token\<close> are not three segments and carry
  no signature, yet the stub accepts them and the pipeline ends with the licence active.
\<close>

theorem pipeline_activates_malformed_token:
  "\<not> spec_three_segments ''gamer-token'' \<and>
   fst (snd (aegis_validate_token_stub (Some ''gamer-token''))) = 0 \<and>
   aegis_is_licensed (snd (snd (aegis_lkm_init (Kernel_read_ok ''gamer-token'') lkm_initial)))"
  by code_simp

text \<open>
  C1, amended: \<open>aegis_validate_token_stub\<close> rejects a token exactly when it is NULL or
  shorter than 10 bytes; after \<open>aegis_lkm_init\<close>, whatever the state before, the licence
  is active exactly when the token file was read and the validator accepted what was
  read. So every token the stub rejects, and every failed read, leaves the licence
  inactive.
\<close>

theorem pipeline_active_iff_accepted:
  "(fst (snd (aegis_validate_token_stub token)) \<noteq> 0 \<longleftrightarrow>
      token = None \<or> (\<exists>tok. token = Some tok \<and> strlen tok < 10)) \<and>
   (aegis_is_licensed (snd (snd (aegis_lkm_init env s))) \<longleftrightarrow>
      fst (snd (aegis_read_token_file env)) = 0 \<and>
      fst (snd (aegis_validate_token_stub (snd (snd (aegis_read_token_file env))))) = 0)"
proof -
  have v: "fst (snd (aegis_validate_token_stub token)) \<noteq> 0 \<longleftrightarrow>
      token = None \<or> (\<exists>tok. token = Some tok \<and> strlen tok < 10)"
    using validate_ret [of token] by (cases token) (simp_all add: EINVAL_def)
  have p: "aegis_is_licensed (snd (snd (aegis_lkm_init env s))) \<longleftrightarrow>
      fst (snd (aegis_read_token_file env)) = 0 \<and>
      fst (snd (aegis_validate_token_stub (snd (snd (aegis_read_token_file env))))) = 0"
  proof (cases env)
    case (Kernel_read_ok content)
    then show ?thesis
      using validate_ret [of "Some (take (AEGIS_TOKEN_MAX_SIZE - 1) content @ [NUL])"]
      by (simp add: aegis_is_licensed_def init_active_iff Let_def strlen_append_NUL EINVAL_def)
  qed (simp_all add: aegis_is_licensed_def init_active_iff ENOMEM_def ENOENT_def EIO_def)
  from v p show ?thesis by blast
qed

theorem pipeline_active_iff_accepted_witness:
  "fst (snd (aegis_validate_token_stub (Some ''a.b.c''))) \<noteq> 0 \<and>
   \<not> aegis_is_licensed (snd (snd (aegis_lkm_init (Kernel_read_ok ''a.b.c'')
        \<lparr>aegis_license_active = True, aegis_license_tier = ''gamer''\<rparr>))) \<and>
   \<not> aegis_is_licensed (snd (snd (aegis_lkm_init Kernel_read_err
        \<lparr>aegis_license_active = True, aegis_license_tier = ''gamer''\<rparr>)))"
  using pipeline_active_iff_accepted [of "Some ''a.b.c''" "Kernel_read_ok ''a.b.c''"
            "\<lparr>aegis_license_active = True, aegis_license_tier = ''gamer''\<rparr>"]
        pipeline_active_iff_accepted [of "Some ''a.b.c''" Kernel_read_err
            "\<lparr>aegis_license_active = True, aegis_license_tier = ''gamer''\<rparr>"]
  by (simp add: strlen_def c_str_def NUL_def EIO_def AEGIS_TOKEN_MAX_SIZE_def
      aegis_validate_token_stub_def EINVAL_def)

section \<open>Claims on activation and the licence state\<close>

text \<open>
  C2, as the specification states it: the unknown tier confers no entitlement. The token
  \<open>enterprise-plan-42\<close> holds no keyword, gets the tier unknown, and the pipeline ends
  with the licence active under that tier.
\<close>

theorem unknown_tier_is_activated:
  "snd (snd (aegis_validate_token_stub (Some ''enterprise-plan-42''))) = Some ''unknown'' \<and>
   aegis_is_licensed (snd (snd (aegis_lkm_init (Kernel_read_ok ''enterprise-plan-42'') lkm_initial))) \<and>
   aegis_get_tier (snd (snd (aegis_lkm_init (Kernel_read_ok ''enterprise-plan-42'') lkm_initial)))
     = ''unknown''"
  by code_simp

text \<open>
  C2, amended: a token of at least 10 bytes in which none of the five keywords occurs is
  accepted with the tier unknown; activating the tier unknown announces no feature (the
  only record it logs is the line naming the tier, none of the tier branches runs), and
  it sets the licence active with the tier unknown.
\<close>

theorem unknown_tier_no_features_but_active:
  "10 \<le> strlen tok \<Longrightarrow>
   \<not> sublist ''gamer'' (c_str tok) \<Longrightarrow> \<not> sublist ''ai'' (c_str tok) \<Longrightarrow>
   \<not> sublist ''server'' (c_str tok) \<Longrightarrow> \<not> sublist ''basic'' (c_str tok) \<Longrightarrow>
   \<not> sublist ''freemium'' (c_str tok) \<Longrightarrow>
     fst (snd (aegis_validate_token_stub (Some tok))) = 0 \<and>
     snd (snd (aegis_validate_token_stub (Some tok))) = Some ''unknown'' \<and>
     fst (aegis_activate_features ''unknown'' s) =
       [(KERN_INFO, ''Aegis: Activating features for tier: unknown'' @ LF)] \<and>
     aegis_is_licensed (snd (aegis_activate_features ''unknown'' s)) \<and>
     aegis_get_tier (snd (aegis_activate_features ''unknown'' s)) = ''unknown''"
  using validate_ret [of "Some tok"] validate_tier [of tok]
  by (simp add: spec_first_match_def keyword_order_def activate_unknown_log activate_state
      aegis_is_licensed_def aegis_get_tier_def)

theorem unknown_tier_no_features_but_active_witness:
  "10 \<le> strlen ''enterprise-plan-42'' \<and>
   \<not> sublist ''gamer'' (c_str ''enterprise-plan-42'') \<and>
   \<not> sublist ''ai'' (c_str ''enterprise-plan-42'') \<and>
   \<not> sublist ''server'' (c_str ''enterprise-plan-42'') \<and>
   \<not> sublist ''basic'' (c_str ''enterprise-plan-42'') \<and>
   \<not> sublist ''freemium'' (c_str ''enterprise-plan-42'') \<and>
   snd (snd (aegis_validate_token_stub (Some ''enterprise-plan-42''))) = Some ''unknown'' \<and>
   fst (aegis_activate_features ''unknown'' lkm_initial) =
     [(KERN_INFO, ''Aegis: Activating features for tier: unknown'' @ LF)] \<and>
   aegis_is_licensed (snd (aegis_activate_features ''unknown'' lkm_initial))"
proof -
  have len: "10 \<le> strlen ''enterprise-plan-42''"
    by (simp add: strlen_def c_str_def NUL_def)
  have k1: "\<not> sublist ''gamer'' (c_str ''enterprise-plan-42'')" by code_simp
  have k2: "\<not> sublist ''ai'' (c_str ''enterprise-plan-42'')" by code_simp
  have k3: "\<not> sublist ''server'' (c_str ''enterprise-plan-42'')" by code_simp
  have k4: "\<not> sublist ''basic'' (c_str ''enterprise-plan-42'')" by code_simp
  have k5: "\<not> sublist ''freemium'' (c_str ''enterprise-plan-42'')" by code_simp
  from unknown_tier_no_features_but_active [OF len k1 k2 k3 k4 k5, of lkm_initial]
    len k1 k2 k3 k4 k5
  show ?thesis by simp
qed

text \<open>
  C3, as the specification states it: after unload the tier is the unlicensed value. The
  module starts with the tier \<open>none\<close>; after it was loaded with a gamer token and
  unloaded, \<open>aegis_get_tier\<close> still returns \<open>gamer\<close>.
\<close>

theorem exit_keeps_gamer_tier:
  "aegis_get_tier lkm_initial = ''none'' \<and>
   aegis_get_tier (snd (aegis_lkm_exit (snd (snd
      (aegis_lkm_init (Kernel_read_ok ''gamer-token-0001'') lkm_initial))))) = ''gamer''"
  by code_simp

text \<open>
  C3, amended: after \<open>aegis_lkm_exit\<close>, \<open>aegis_is_licensed\<close> returns false, whatever the
  tier was, and \<open>aegis_get_tier\<close> returns the tier it returned before the unload.
\<close>

theorem exit_deactivates_and_keeps_tier:
  "\<not> aegis_is_licensed (snd (aegis_lkm_exit s)) \<and>
   aegis_get_tier (snd (aegis_lkm_exit s)) = aegis_get_tier s"
  by (simp add: exit_state aegis_is_licensed_def aegis_get_tier_def)

text \<open>
  C4. When the token file cannot be opened, \<open>aegis_lkm_init\<close> run on the freshly loaded
  module returns 0 and leaves the fail-closed state: the licence inactive, the tier
  \<open>none\<close>, and no feature announced. The log is exactly the banner, the read attempt and
  the two warnings: no activation record and no record of any tier.
\<close>

theorem init_without_token_file_fails_closed:
  "fst (snd (aegis_lkm_init Filp_open_err lkm_initial)) = 0 \<and>
   \<not> aegis_is_licensed (snd (snd (aegis_lkm_init Filp_open_err lkm_initial))) \<and>
   aegis_get_tier (snd (snd (aegis_lkm_init Filp_open_err lkm_initial))) = ''none'' \<and>
   fst (aegis_lkm_init Filp_open_err lkm_initial) =
     [(KERN_INFO, ''Aegis OS Kernel Module v1.0.0 initializing...'' @ LF),
      (KERN_INFO, ''Aegis: Copyright (c) 2024 Aegis OS Development Team'' @ LF),
      (KERN_INFO, ''Aegis: Attempting to read token from /etc/aegis/auth.token'' @ LF),
      (KERN_WARNING, ''Aegis: Token file not found - running in unlicensed mode'' @ LF),
      (KERN_WARNING, ''Aegis: No valid license found - running in restricted mode'' @ LF)]"
  by (simp add: aegis_lkm_init_def ENOENT_def aegis_is_licensed_def aegis_get_tier_def
      lkm_initial_def init_banner_def AEGIS_TOKEN_PATH_def)

text \<open>
  C6. In every state reachable through module initialisation, activation of a validated
  tier and module exit, an active licence never goes with the unlicensed tier \<open>none\<close>:
  when \<open>aegis_is_licensed\<close> is true, \<open>aegis_get_tier\<close> returns one of the six tiers that
  a successful validation hands to the activation.
\<close>

theorem active_never_with_unlicensed_tier:
  "reachable s \<Longrightarrow> aegis_is_licensed s \<Longrightarrow>
     aegis_get_tier s \<noteq> aegis_get_tier lkm_initial \<and>
     aegis_get_tier s \<in> {''gamer'', ''ai'', ''server'', ''basic'', ''freemium'', ''unknown''}"
  using reachable_invariant [of s]
  by (auto simp: aegis_is_licensed_def aegis_get_tier_def lkm_initial_def)

theorem active_never_with_unlicensed_tier_witness:
  "reachable (snd (snd (aegis_lkm_init (Kernel_read_ok ''server-token-7'') lkm_initial))) \<and>
   aegis_is_licensed (snd (snd (aegis_lkm_init (Kernel_read_ok ''server-token-7'') lkm_initial))) \<and>
   aegis_get_tier (snd (snd (aegis_lkm_init (Kernel_read_ok ''server-token-7'') lkm_initial)))
     = ''server'' \<and>
   aegis_get_tier lkm_initial = ''none''"
proof -
  let ?s = "snd (snd (aegis_lkm_init (Kernel_read_ok ''server-token-7'') lkm_initial))"
  have r: "reachable ?s" by (rule reach_init [OF reach_initial])
  have a: "aegis_is_licensed ?s" by code_simp
  have t: "aegis_get_tier ?s = ''server''" by code_simp
  have n: "aegis_get_tier lkm_initial = ''none''" by code_simp
  from active_never_with_unlicensed_tier [OF r a] r a t n show ?thesis by simp
qed

text \<open>
  C8. Activation is idempotent on the licence state: for every tier and every state,
  \<open>aegis_activate_features\<close> called twice with the same tier leaves the static variables
  as one call does.
\<close>

theorem activate_idempotent:
  "snd (aegis_activate_features tier (snd (aegis_activate_features tier s))) =
     snd (aegis_activate_features tier s)"
  by (simp add: activate_state)

section \<open>Claims on the attribute readers\<close>



end
